theory Spec2Isabelle
  imports Main
begin

section \<open>The Sphinx build configuration of Totem (docs/conf.py)\<close>

text \<open>
  The repository is one Python module, \<^verbatim>\<open>docs/conf.py\<close>. Its body is a straight
  line of statements: \<^verbatim>\<open>import sys, os\<close>, thirteen assignments of literals to
  module globals, two \<^verbatim>\<open>from ... import ...\<close> statements, and one item
  assignment into the dictionary \<^verbatim>\<open>sphinx.highlighting.lexers\<close>.

  Executing the body is modelled as a function of the globals the body starts
  with and of the process it runs in. Either statement that can raise (the two
  imports of third-party modules) is a branch that returns the error and the
  process as it was.
\<close>

subsection \<open>Python values\<close>

text \<open>
  The values the module binds. Python is dynamically typed, so lists and tuples
  hold values of any kind and a tuple's arity is a fact about the value, not
  about its type. A string is the sequence of its code points; both
  \<^verbatim>\<open>'...'\<close> and \<^verbatim>\<open>u'...'\<close> literals are \<open>Str\<close> (they compare equal on equal
  code points). \<open>Module\<close> and \<open>Class\<close> stand for an imported module or class
  object, named by its dotted path; \<open>DictRef\<close> is a reference to a dictionary
  that lives in the process, named by its dotted path.
\<close>

datatype pyval =
    Str string
  | Bool bool
  | List "pyval list"
  | Tuple "pyval list"
  | Module string
  | Class string
  | DictRef string

text \<open>
  A lexer object, as far as this module determines it: the class that was
  called and the keyword arguments of the call.
\<close>

record lexer =
  lexer_class :: string
  lexer_options :: "(string \<times> pyval) list"

datatype error = ImportError string

type_synonym globals = "string \<rightharpoonup> pyval"

text \<open>
  The part of the process the module reads and writes.
  \<open>highlighting_lexers\<close> is \<open>None\<close> when \<^verbatim>\<open>from sphinx.highlighting import lexers\<close>
  cannot succeed, and otherwise the contents of that dictionary (language tag
  to lexer). \<open>pygments_PhpLexer\<close> says whether
  \<^verbatim>\<open>from pygments.lexers.web import PhpLexer\<close> can succeed.
\<close>

record process =
  highlighting_lexers :: "(string \<rightharpoonup> lexer) option"
  pygments_PhpLexer :: bool

subsection \<open>The module body\<close>

text \<open>
  The author string occurs three times in the source; it holds two double
  quotes (code point 0x22) and ends in U+00E9.
\<close>

definition talus :: string where
  "talus = ''Baptiste '' @ [CHR 0x22] @ ''Talus'' @ [CHR 0x22] @ '' Clavi'' @ [CHR 0xE9]"

text \<open>\<^verbatim>\<open>PhpLexer(startinline=True)\<close>\<close>

definition PhpLexer :: "(string \<times> pyval) list \<Rightarrow> lexer" where
  "PhpLexer options = \<lparr>lexer_class = ''pygments.lexers.web.PhpLexer'', lexer_options = options\<rparr>"

text \<open>Lines 3 to 61: the imports of the standard library and the assignments, in order.\<close>

definition assignments :: "globals \<Rightarrow> globals" where
  "assignments g = g
    (''sys'' \<mapsto> Module ''sys'',
     ''os'' \<mapsto> Module ''os'',
     ''extensions'' \<mapsto> List [],
     ''templates_path'' \<mapsto> List [Str ''.templates''],
     ''source_suffix'' \<mapsto> Str ''.rst'',
     ''master_doc'' \<mapsto> Str ''index'',
     ''project'' \<mapsto> Str ''Totem'',
     ''copyright'' \<mapsto> Str (''2013, '' @ talus),
     ''version'' \<mapsto> Str ''1.4'',
     ''release'' \<mapsto> Str ''1.4.0'',
     ''language'' \<mapsto> Str ''en'',
     ''highlight_language'' \<mapsto> Str ''php'',
     ''exclude_patterns'' \<mapsto> List [Str ''.build''],
     ''latex_documents'' \<mapsto> List
        [Tuple [Str ''index'', Str ''Totem.tex'', Str ''Totem Documentation'',
                Str talus, Str ''manual'']],
     ''texinfo_documents'' \<mapsto> List
        [Tuple [Str ''index'', Str ''Totem'', Str ''Totem Documentation'',
                Str talus, Str ''Totem'', Str ''Changeset Calculator.'',
                Str ''Miscellaneous'']])"

text \<open>
  The whole body. Lines 64 to 67:
  \<^verbatim>\<open>
  from sphinx.highlighting import lexers
  from pygments.lexers.web import PhpLexer
  lexers['php'] = PhpLexer(startinline=True)
  \<close>
  The result is the error or the module's globals, and the process afterwards.
\<close>

definition load_conf :: "globals \<Rightarrow> process \<Rightarrow> (error + globals) \<times> process" where
  "load_conf g0 p =
    (let g = assignments g0 in
     case highlighting_lexers p of
       None \<Rightarrow> (Inl (ImportError ''sphinx.highlighting''), p)
     | Some lexers \<Rightarrow>
         let g = g(''lexers'' \<mapsto> DictRef ''sphinx.highlighting.lexers'') in
         if \<not> pygments_PhpLexer p then (Inl (ImportError ''pygments.lexers.web''), p)
         else
           let g = g(''PhpLexer'' \<mapsto> Class ''pygments.lexers.web.PhpLexer'') in
           (Inr g,
            p\<lparr>highlighting_lexers :=
                Some (lexers(''php'' \<mapsto> PhpLexer [(''startinline'', Bool True)]))\<rparr>))"

text \<open>A process for the examples: both modules present, the registry holding one other lexer.\<close>

definition sample_process :: process where
  "sample_process =
    \<lparr>highlighting_lexers =
       Some [''python'' \<mapsto> \<lparr>lexer_class = ''pygments.lexers.agile.PythonLexer'', lexer_options = []\<rparr>],
     pygments_PhpLexer = True\<rparr>"

subsection \<open>What a load returns\<close>

lemma load_conf_ok:
  "highlighting_lexers p = Some lexers \<Longrightarrow> pygments_PhpLexer p \<Longrightarrow>
   load_conf g0 p =
     (Inr ((assignments g0)(''lexers'' \<mapsto> DictRef ''sphinx.highlighting.lexers'',
                            ''PhpLexer'' \<mapsto> Class ''pygments.lexers.web.PhpLexer'')),
      p\<lparr>highlighting_lexers :=
          Some (lexers(''php'' \<mapsto> PhpLexer [(''startinline'', Bool True)]))\<rparr>)"
  by (simp add: load_conf_def)

lemma load_conf_Inr:
  assumes "load_conf g0 p = (Inr g, p')"
  obtains lexers where
    "highlighting_lexers p = Some lexers" "pygments_PhpLexer p"
    "g = (assignments g0)(''lexers'' \<mapsto> DictRef ''sphinx.highlighting.lexers'',
                          ''PhpLexer'' \<mapsto> Class ''pygments.lexers.web.PhpLexer'')"
    "p' = p\<lparr>highlighting_lexers :=
             Some (lexers(''php'' \<mapsto> PhpLexer [(''startinline'', Bool True)]))\<rparr>"
  using assms by (auto simp: load_conf_def Let_def split: option.splits if_splits)

lemma load_sample:
  "\<exists>g p'. load_conf Map.empty sample_process = (Inr g, p')"
  by (simp add: load_conf_def sample_process_def)

lemma loaded_globals:
  assumes "load_conf g0 p = (Inr g, p')"
  shows "g = (assignments g0)(''lexers'' \<mapsto> DictRef ''sphinx.highlighting.lexers'',
                          ''PhpLexer'' \<mapsto> Class ''pygments.lexers.web.PhpLexer'')"
  using assms by (rule load_conf_Inr)

text \<open>Running the body again over the globals it produced binds every name to the same value.\<close>

lemma reload_globals:
  "(assignments ((assignments g0)(''lexers'' \<mapsto> a, ''PhpLexer'' \<mapsto> b)))
      (''lexers'' \<mapsto> a, ''PhpLexer'' \<mapsto> b)
     = (assignments g0)(''lexers'' \<mapsto> a, ''PhpLexer'' \<mapsto> b)"
  by (rule ext) (simp add: assignments_def)

subsection \<open>The registration of the PHP lexer\<close>

text \<open>
  C1. When both third-party modules can be imported, loading the module
  succeeds and changes the process in one place only: the lexer registry gets
  the key \<open>''php''\<close>. The keys afterwards are the keys before plus \<open>''php''\<close>, every
  other key keeps its lexer, and when \<open>''php''\<close> was not a key before the load
  (the first load in a process) it is the one new key. The lexer stored under
  it is a \<open>PhpLexer\<close> whose \<open>startinline\<close> option is \<open>True\<close>.
\<close>

theorem php_lexer_registered:
  assumes "highlighting_lexers p = Some lexers" and "pygments_PhpLexer p"
  shows "\<exists>g lexers' lx.
      load_conf g0 p = (Inr g, p\<lparr>highlighting_lexers := Some lexers'\<rparr>)
    \<and> dom lexers' = insert ''php'' (dom lexers)
    \<and> (\<forall>k. k \<noteq> ''php'' \<longrightarrow> lexers' k = lexers k)
    \<and> (''php'' \<notin> dom lexers \<longrightarrow> dom lexers' - dom lexers = {''php''})
    \<and> lexers' ''php'' = Some lx
    \<and> lexer_class lx = ''pygments.lexers.web.PhpLexer''
    \<and> lexer_options lx = [(''startinline'', Bool True)]"
  using assms by (auto simp: load_conf_ok PhpLexer_def)

theorem php_lexer_registered_witness:
  "\<exists>g lexers' lx.
      load_conf Map.empty sample_process
        = (Inr g, sample_process\<lparr>highlighting_lexers := Some lexers'\<rparr>)
    \<and> dom lexers' = {''php'', ''python''}
    \<and> lexers' ''python'' = the (highlighting_lexers sample_process) ''python''
    \<and> dom lexers' - dom (the (highlighting_lexers sample_process)) = {''php''}
    \<and> lexers' ''php'' = Some lx
    \<and> lexer_options lx = [(''startinline'', Bool True)]"
  using php_lexer_registered
    [of sample_process "the (highlighting_lexers sample_process)" Map.empty]
  by (auto simp: sample_process_def)

text \<open>
  C2. A second load, in the process the first load left behind, does not raise
  and leaves the registry as the first load left it: the entry under \<open>''php''\<close>
  is overwritten with a lexer built by the same call. This holds whether the
  body runs again over the globals the first load started from or over the
  globals the first load produced; the globals come out the same as well.
  (A lexer is modelled by its class and options, so equality here is
  equivalence of the two lexer objects.)
\<close>

theorem second_load_idempotent:
  assumes "load_conf g0 p = (Inr g, p')"
  shows "load_conf g0 p' = (Inr g, p') \<and> load_conf g p' = (Inr g, p')"
proof -
  from assms obtain lexers where
    p: "highlighting_lexers p = Some lexers" "pygments_PhpLexer p"
    and g: "g = (assignments g0)(''lexers'' \<mapsto> DictRef ''sphinx.highlighting.lexers'',
                          ''PhpLexer'' \<mapsto> Class ''pygments.lexers.web.PhpLexer'')"
    and p': "p' = p\<lparr>highlighting_lexers :=
             Some (lexers(''php'' \<mapsto> PhpLexer [(''startinline'', Bool True)]))\<rparr>"
    by (rule load_conf_Inr)
  from p p' have
    l: "highlighting_lexers p'
          = Some (lexers(''php'' \<mapsto> PhpLexer [(''startinline'', Bool True)]))"
    and a: "pygments_PhpLexer p'"
    by simp_all
  have same: "p'\<lparr>highlighting_lexers :=
      Some ((lexers(''php'' \<mapsto> PhpLexer [(''startinline'', Bool True)]))
              (''php'' \<mapsto> PhpLexer [(''startinline'', Bool True)]))\<rparr> = p'"
    by (simp add: p')
  have "load_conf g0 p' = (Inr g, p')"
    unfolding load_conf_ok [OF l a] g same ..
  moreover have "load_conf g p' = (Inr g, p')"
    unfolding load_conf_ok [OF l a] g reload_globals same ..
  ultimately show ?thesis ..
qed

theorem second_load_idempotent_witness:
  "\<exists>g p'. load_conf Map.empty sample_process = (Inr g, p')
     \<and> load_conf Map.empty p' = (Inr g, p') \<and> load_conf g p' = (Inr g, p')"
proof -
  obtain g p' where l: "load_conf Map.empty sample_process = (Inr g, p')"
    using load_sample by blast
  from second_load_idempotent [OF l] l show ?thesis by blast
qed

text \<open>
  C5. When a third-party import cannot succeed (the registry module
  \<^verbatim>\<open>sphinx.highlighting\<close> or the lexer class \<^verbatim>\<open>pygments.lexers.web.PhpLexer\<close>),
  the load ends in an \<open>ImportError\<close>: there is no other outcome, so nothing
  is retried or replaced by a fallback, and the process, the lexer registry
  with it, is as it was before the load.
\<close>

theorem import_failure_terminal:
  assumes "highlighting_lexers p = None \<or> \<not> pygments_PhpLexer p"
  shows "\<exists>m. load_conf g0 p = (Inl (ImportError m), p)"
  using assms by (auto simp: load_conf_def split: option.splits)

theorem import_failure_terminal_witness:
  "load_conf Map.empty (sample_process\<lparr>pygments_PhpLexer := False\<rparr>)
     = (Inl (ImportError ''pygments.lexers.web''),
        sample_process\<lparr>pygments_PhpLexer := False\<rparr>)
   \<and> load_conf Map.empty (sample_process\<lparr>highlighting_lexers := None\<rparr>)
     = (Inl (ImportError ''sphinx.highlighting''),
        sample_process\<lparr>highlighting_lexers := None\<rparr>)"
  using import_failure_terminal [of "sample_process\<lparr>pygments_PhpLexer := False\<rparr>" Map.empty]
    import_failure_terminal [of "sample_process\<lparr>highlighting_lexers := None\<rparr>" Map.empty]
  by (auto simp: load_conf_def sample_process_def)

text \<open>
  C10. After a load, the value bound to \<open>highlight_language\<close> is a string, the
  string is \<open>''php''\<close>, and looking that string up in the lexer registry gives
  the lexer this module registered.
\<close>

theorem default_language_resolves:
  assumes "load_conf g0 p = (Inr g, p')"
  shows "\<exists>tag lexers'. g ''highlight_language'' = Some (Str tag) \<and> tag = ''php''
      \<and> highlighting_lexers p' = Some lexers'
      \<and> lexers' tag = Some (PhpLexer [(''startinline'', Bool True)])"
proof -
  from assms obtain lexers where
    g: "g = (assignments g0)(''lexers'' \<mapsto> DictRef ''sphinx.highlighting.lexers'',
                          ''PhpLexer'' \<mapsto> Class ''pygments.lexers.web.PhpLexer'')"
    and p': "p' = p\<lparr>highlighting_lexers :=
             Some (lexers(''php'' \<mapsto> PhpLexer [(''startinline'', Bool True)]))\<rparr>"
    by (rule load_conf_Inr)
  show ?thesis by (simp add: g p' assignments_def)
qed

theorem default_language_resolves_witness:
  "\<exists>g p' lexers'. load_conf Map.empty sample_process = (Inr g, p')
      \<and> g ''highlight_language'' = Some (Str ''php'')
      \<and> highlighting_lexers p' = Some lexers'
      \<and> lexers' ''php'' = Some (PhpLexer [(''startinline'', Bool True)])"
proof -
  obtain g p' where l: "load_conf Map.empty sample_process = (Inr g, p')"
    using load_sample by blast
  from default_language_resolves [OF l] l show ?thesis by blast
qed

subsection \<open>The module's bindings after a load\<close>

text \<open>
  C3. After a load, \<open>project\<close> is \<open>''Totem''\<close>, \<open>version\<close> is \<open>''1.4''\<close>, \<open>release\<close>
  is \<open>''1.4.0''\<close> and \<open>highlight_language\<close> is \<open>''php''\<close>.
\<close>

theorem project_metadata:
  assumes "load_conf g0 p = (Inr g, p')"
  shows "g ''project'' = Some (Str ''Totem'') \<and> g ''version'' = Some (Str ''1.4'')
       \<and> g ''release'' = Some (Str ''1.4.0'') \<and> g ''highlight_language'' = Some (Str ''php'')"
  by (simp add: loaded_globals [OF assms] assignments_def)

theorem project_metadata_witness:
  "\<exists>g p'. load_conf Map.empty sample_process = (Inr g, p')
     \<and> g ''project'' = Some (Str ''Totem'') \<and> g ''version'' = Some (Str ''1.4'')
     \<and> g ''release'' = Some (Str ''1.4.0'') \<and> g ''highlight_language'' = Some (Str ''php'')"
proof -
  obtain g p' where l: "load_conf Map.empty sample_process = (Inr g, p')"
    using load_sample by blast
  from project_metadata [OF l] l show ?thesis by blast
qed

text \<open>
  C4. After a load, \<open>latex_documents\<close> and \<open>texinfo_documents\<close> are non-empty
  lists; every entry of the first is a tuple of five elements, every entry of
  the second a tuple of seven, and the first element of each is the value bound
  to \<open>master_doc\<close>, the string \<open>''index''\<close>.
\<close>

theorem documents_shape:
  assumes "load_conf g0 p = (Inr g, p')"
  shows "\<exists>ld td. g ''latex_documents'' = Some (List ld) \<and> g ''texinfo_documents'' = Some (List td)
       \<and> ld \<noteq> [] \<and> td \<noteq> [] \<and> g ''master_doc'' = Some (Str ''index'')
       \<and> (\<forall>e \<in> set ld. \<exists>xs. e = Tuple xs \<and> length xs = 5 \<and> g ''master_doc'' = Some (hd xs))
       \<and> (\<forall>e \<in> set td. \<exists>xs. e = Tuple xs \<and> length xs = 7 \<and> g ''master_doc'' = Some (hd xs))"
  by (simp add: loaded_globals [OF assms] assignments_def)

theorem documents_shape_witness:
  "\<exists>g p' ld td. load_conf Map.empty sample_process = (Inr g, p')
     \<and> g ''latex_documents'' = Some (List ld) \<and> g ''texinfo_documents'' = Some (List td)
     \<and> ld \<noteq> [] \<and> td \<noteq> [] \<and> g ''master_doc'' = Some (Str ''index'')
     \<and> list_all (\<lambda>e. \<exists>xs. e = Tuple xs \<and> length xs = 5 \<and> hd xs = Str ''index'') ld
     \<and> list_all (\<lambda>e. \<exists>xs. e = Tuple xs \<and> length xs = 7 \<and> hd xs = Str ''index'') td"
proof -
  obtain g p' where l: "load_conf Map.empty sample_process = (Inr g, p')"
    using load_sample by blast
  from documents_shape [OF l] l show ?thesis
    unfolding list_all_iff by fastforce
qed

text \<open>C6. After a load, \<open>source_suffix\<close> is the string \<open>''.rst''\<close>.\<close>

theorem source_suffix_rst:
  assumes "load_conf g0 p = (Inr g, p')"
  shows "g ''source_suffix'' = Some (Str ''.rst'')"
  by (simp add: loaded_globals [OF assms] assignments_def)

theorem source_suffix_rst_witness:
  "\<exists>g p'. load_conf Map.empty sample_process = (Inr g, p')
     \<and> g ''source_suffix'' = Some (Str ''.rst'')"
proof -
  obtain g p' where l: "load_conf Map.empty sample_process = (Inr g, p')"
    using load_sample by blast
  from source_suffix_rst [OF l] l show ?thesis by blast
qed

text \<open>C7. After a load, \<open>templates_path\<close> is a list of one entry, the string \<open>''.templates''\<close>.\<close>

theorem templates_path_single:
  assumes "load_conf g0 p = (Inr g, p')"
  shows "g ''templates_path'' = Some (List [Str ''.templates''])"
  by (simp add: loaded_globals [OF assms] assignments_def)

theorem templates_path_single_witness:
  "\<exists>g p'. load_conf Map.empty sample_process = (Inr g, p')
     \<and> g ''templates_path'' = Some (List [Str ''.templates''])"
proof -
  obtain g p' where l: "load_conf Map.empty sample_process = (Inr g, p')"
    using load_sample by blast
  from templates_path_single [OF l] l show ?thesis by blast
qed

text \<open>C8. After a load, \<open>exclude_patterns\<close> is a list of one entry, the string \<open>''.build''\<close>.\<close>

theorem exclude_patterns_single:
  assumes "load_conf g0 p = (Inr g, p')"
  shows "g ''exclude_patterns'' = Some (List [Str ''.build''])"
  by (simp add: loaded_globals [OF assms] assignments_def)

theorem exclude_patterns_single_witness:
  "\<exists>g p'. load_conf Map.empty sample_process = (Inr g, p')
     \<and> g ''exclude_patterns'' = Some (List [Str ''.build''])"
proof -
  obtain g p' where l: "load_conf Map.empty sample_process = (Inr g, p')"
    using load_sample by blast
  from exclude_patterns_single [OF l] l show ?thesis by blast
qed

text \<open>C9. After a load, \<open>extensions\<close> is the empty list.\<close>

theorem extensions_empty:
  assumes "load_conf g0 p = (Inr g, p')"
  shows "g ''extensions'' = Some (List [])"
  by (simp add: loaded_globals [OF assms] assignments_def)

theorem extensions_empty_witness:
  "\<exists>g p'. load_conf Map.empty sample_process = (Inr g, p')
     \<and> g ''extensions'' = Some (List [])"
proof -
  obtain g p' where l: "load_conf Map.empty sample_process = (Inr g, p')"
    using load_sample by blast
  from extensions_empty [OF l] l show ?thesis by blast
qed

end
